theory Spec2Isabelle
  imports Main "HOL-Library.Word" "HOL-Library.Sublist"
begin

unbundle bit_operations_syntax

section \<open>Data model of the rule stages (backup.go, lines 430-442)\<close>

text \<open>
  \<^verbatim>\<open>buildRule\<close> and \<^verbatim>\<open>buildStage\<close> are the two structs of the program. The field
  \<^verbatim>\<open>include\<close> is written \<open>include'\<close>, since \<open>include\<close> is a keyword of Isabelle.
\<close>

record buildRule =
  glob :: string
  line :: int

record buildStage =
  include' :: bool
  source :: string
  rules :: "buildRule list"

text \<open>
  Everything that ends the program abnormally is a value of \<open>panic\<close>: a method call on
  a nil \<^verbatim>\<open>os.FileInfo\<close> and a slice expression beyond the length of the slice.
\<close>

datatype panic = NilPointerDereference | SliceBoundsOutOfRange

section \<open>File modes (package os) and skipFileType (backup.go, lines 316-328)\<close>

text \<open>
  \<^verbatim>\<open>os.FileMode\<close> is a \<^verbatim>\<open>uint32\<close>; the constants are the bits of package \<^verbatim>\<open>os\<close>.
\<close>

type_synonym FileMode = "32 word"

definition ModeDir :: FileMode where "ModeDir = push_bit 31 1"
definition ModeTemporary :: FileMode where "ModeTemporary = push_bit 28 1"
definition ModeSymlink :: FileMode where "ModeSymlink = push_bit 27 1"
definition ModeDevice :: FileMode where "ModeDevice = push_bit 26 1"
definition ModeNamedPipe :: FileMode where "ModeNamedPipe = push_bit 25 1"
definition ModeSocket :: FileMode where "ModeSocket = push_bit 24 1"
definition ModeCharDevice :: FileMode where "ModeCharDevice = push_bit 21 1"
definition ModeIrregular :: FileMode where "ModeIrregular = push_bit 19 1"

definition ModeType :: FileMode where
  "ModeType = ModeDir OR ModeSymlink OR ModeNamedPipe OR ModeSocket OR ModeDevice
                OR ModeCharDevice OR ModeIrregular"

definition IsDir :: "FileMode \<Rightarrow> bool" where
  "IsDir m = (m AND ModeDir \<noteq> 0)"

definition IsRegular :: "FileMode \<Rightarrow> bool" where
  "IsRegular m = (m AND ModeType = 0)"

text \<open>
  \<^verbatim>\<open>skipFileType\<close>, on the mode of a non-nil \<^verbatim>\<open>FileInfo\<close>: true when the entry is to
  be skipped. The call on a nil \<^verbatim>\<open>FileInfo\<close> panics; that branch is in \<open>walkFn\<close> below,
  where the call is made.
\<close>

definition skipFileType :: "FileMode \<Rightarrow> bool" where
  "skipFileType m =
     (if m AND ModeTemporary \<noteq> 0 then True
      else if m AND ModeType = ModeDir \<or> m AND ModeType = ModeSymlink then False
      else if IsRegular m then False
      else True)"

section \<open>The environment of the compiler: glob matching and the file tree\<close>

text \<open>
  An entry as \<^verbatim>\<open>filepath.Walk\<close> meets it: the path handed to the callback, the result of
  \<^verbatim>\<open>os.Lstat\<close> on it (\<open>None\<close> when \<^verbatim>\<open>Lstat\<close> fails, and the callback then receives a nil
  \<^verbatim>\<open>FileInfo\<close>), and the entries of the directory in the sorted order of
  \<^verbatim>\<open>readDirNames\<close>. The entries are read only when the mode is that of a directory;
  a directory that cannot be read has no entries.
\<close>

datatype fnode = Node string "FileMode option" "fnode list"

text \<open>
  The file system is taken as it stands during one compilation: \<open>Match p n\<close> is the
  boolean \<^verbatim>\<open>filepath.Match(p, n)\<close> returns (false with a malformed pattern), \<open>Glob p\<close>
  the slice \<^verbatim>\<open>filepath.Glob(p)\<close> returns, and \<open>walkTree r\<close> the tree \<^verbatim>\<open>filepath.Walk\<close>
  traverses from the root \<open>r\<close>. The program discards the error of all three.
\<close>

record fsys =
  Match :: "string \<Rightarrow> string \<Rightarrow> bool"
  Glob :: "string \<Rightarrow> string list"
  walkTree :: "string \<Rightarrow> fnode"

text \<open>\<^verbatim>\<open>path.Base\<close>: the last element of a path, trailing slashes removed.\<close>

definition Base :: "string \<Rightarrow> string" where
  "Base p =
     (if p = [] then ''.''
      else let p1 = rev (dropWhile (\<lambda>c. c = CHR ''/'') (rev p));
               p2 = rev (takeWhile (\<lambda>c. c \<noteq> CHR ''/'') (rev p1))
           in if p2 = [] then ''/'' else p2)"

section \<open>filepath.Walk\<close>

text \<open>
  A \<^verbatim>\<open>WalkFunc\<close> returns nil (\<open>None\<close>) or an error; the callback of this program
  returns no error but \<^verbatim>\<open>filepath.SkipDir\<close>. It may also panic. The state \<open>'s\<close> is what the
  closure mutates.
\<close>

datatype walkErr = SkipDir

type_synonym 's WalkFunc =
  "string \<Rightarrow> FileMode option \<Rightarrow> 's \<Rightarrow> panic + (walkErr option \<times> 's)"

text \<open>
  \<open>walk\<close> is the recursive function of package \<^verbatim>\<open>filepath\<close>: a non-directory is handed
  to the callback; a directory is handed to the callback and, when the callback returns
  nil, its entries are walked in order. In the loop over the entries, \<^verbatim>\<open>SkipDir\<close>
  returned for a directory, or for an entry whose \<^verbatim>\<open>Lstat\<close> failed, goes on with the
  next entry; \<^verbatim>\<open>SkipDir\<close> returned for a file ends the loop.
\<close>

fun walk :: "'s WalkFunc \<Rightarrow> fnode \<Rightarrow> 's \<Rightarrow> panic + (walkErr option \<times> 's)"
  and walkNames :: "'s WalkFunc \<Rightarrow> fnode list \<Rightarrow> 's \<Rightarrow> panic + (walkErr option \<times> 's)" where
  "walk fn (Node path info names) s =
     (case info of
        None \<Rightarrow> fn path None s
      | Some m \<Rightarrow>
          if \<not> IsDir m then fn path (Some m) s
          else (case fn path (Some m) s of
                  Inl p \<Rightarrow> Inl p
                | Inr (Some e, s') \<Rightarrow> Inr (Some e, s')
                | Inr (None, s') \<Rightarrow> walkNames fn names s'))"
| "walkNames fn [] s = Inr (None, s)"
| "walkNames fn (Node path info names # rest) s =
     (case walk fn (Node path info names) s of
        Inl p \<Rightarrow> Inl p
      | Inr (None, s') \<Rightarrow> walkNames fn rest s'
      | Inr (Some SkipDir, s') \<Rightarrow>
          (case info of
             None \<Rightarrow> walkNames fn rest s'
           | Some m \<Rightarrow> if IsDir m then walkNames fn rest s' else Inr (Some SkipDir, s')))"

text \<open>
  \<^verbatim>\<open>filepath.Walk(root, fn)\<close>: \<^verbatim>\<open>SkipDir\<close> at the root is turned into nil. The program
  drops the value \<^verbatim>\<open>Walk\<close> returns, so only the state is kept.
\<close>

definition Walk :: "fsys \<Rightarrow> string \<Rightarrow> 's WalkFunc \<Rightarrow> 's \<Rightarrow> panic + 's" where
  "Walk fs root fn s =
     (case walk fn (walkTree fs root) s of
        Inl p \<Rightarrow> Inl p
      | Inr (e, s') \<Rightarrow> Inr s')"

section \<open>compileStages (backup.go, lines 254-310)\<close>

text \<open>
  The first loop (lines 260-267): the globs of every exclude stage, appended in order.
\<close>

primrec appendGlobs :: "string list \<Rightarrow> buildRule list \<Rightarrow> string list" where
  "appendGlobs exclusions [] = exclusions"
| "appendGlobs exclusions (rule # rest) = appendGlobs (exclusions @ [glob rule]) rest"

primrec buildExclusions :: "string list \<Rightarrow> buildStage list \<Rightarrow> string list" where
  "buildExclusions exclusions [] = exclusions"
| "buildExclusions exclusions (stage # rest) =
     buildExclusions
       (if \<not> include' stage then appendGlobs exclusions (rules stage) else exclusions) rest"

text \<open>
  The loop of lines 280-287: \<open>excluded\<close> becomes true at the first exclusion that matches
  the path or its base name.
\<close>

primrec isExcluded :: "fsys \<Rightarrow> string list \<Rightarrow> string \<Rightarrow> bool" where
  "isExcluded fs [] wpath = False"
| "isExcluded fs (excl # rest) wpath =
     (let full = Match fs excl wpath; base = Match fs excl (Base wpath)
      in if full \<or> base then True else isExcluded fs rest wpath)"

text \<open>
  The closure of lines 277-299. Its state is the variable \<open>list\<close>; \<open>exclusions\<close> is read
  only. With a nil \<^verbatim>\<open>FileInfo\<close> the call \<^verbatim>\<open>skipFileType(info)\<close> dereferences nil.
\<close>

definition walkFn :: "fsys \<Rightarrow> string list \<Rightarrow> string list WalkFunc" where
  "walkFn fs exclusions wpath info list =
     (let excluded = isExcluded fs exclusions wpath
      in case info of
           None \<Rightarrow> Inl NilPointerDereference
         | Some m \<Rightarrow>
             if skipFileType m then Inr (None, list)
             else if IsDir m then
               (if excluded then Inr (Some SkipDir, list) else Inr (None, list))
             else if \<not> excluded then Inr (None, list @ [wpath])
             else Inr (None, list))"

text \<open>The loop over the matches of one glob (line 276).\<close>

primrec walkMatches :: "fsys \<Rightarrow> string list \<Rightarrow> string list \<Rightarrow> string list \<Rightarrow> panic + string list" where
  "walkMatches fs exclusions [] list = Inr list"
| "walkMatches fs exclusions (file # rest) list =
     (case Walk fs file (walkFn fs exclusions) list of
        Inl p \<Rightarrow> Inl p
      | Inr list' \<Rightarrow> walkMatches fs exclusions rest list')"

text \<open>The loop over the rules of an include stage (line 272).\<close>

primrec includeRules :: "fsys \<Rightarrow> string list \<Rightarrow> buildRule list \<Rightarrow> string list \<Rightarrow> panic + string list" where
  "includeRules fs exclusions [] list = Inr list"
| "includeRules fs exclusions (rule # rest) list =
     (case walkMatches fs exclusions (Glob fs (glob rule)) list of
        Inl p \<Rightarrow> Inl p
      | Inr list' \<Rightarrow> includeRules fs exclusions rest list')"

text \<open>
  The state of the second loop (lines 269-307): the exclusion window \<^verbatim>\<open>exclusions\<close> and
  the list built so far (the variable \<^verbatim>\<open>list\<close>, here the field \<open>selected\<close>). An exclude
  stage re-slices the window, \<^verbatim>\<open>exclusions[len(stage.rules):]\<close>, which panics when the
  window is shorter than the stage.
\<close>

record cstate =
  exclusions :: "string list"
  selected :: "string list"

primrec stagesLoop :: "fsys \<Rightarrow> buildStage list \<Rightarrow> cstate \<Rightarrow> panic + cstate" where
  "stagesLoop fs [] s = Inr s"
| "stagesLoop fs (stage # rest) s =
     (if include' stage then
        (case includeRules fs (exclusions s) (rules stage) (selected s) of
           Inl p \<Rightarrow> Inl p
         | Inr list' \<Rightarrow> stagesLoop fs rest (s\<lparr>selected := list'\<rparr>))
      else if length (rules stage) > length (exclusions s) then Inl SliceBoundsOutOfRange
      else stagesLoop fs rest (s\<lparr>exclusions := drop (length (rules stage)) (exclusions s)\<rparr>))"

text \<open>
  \<^verbatim>\<open>compileStages\<close>. The error it returns is always nil, so the result is the list, or a
  panic. The nil slice of line 256 and the empty slice are both the empty list.
\<close>

definition initialState :: "buildStage list \<Rightarrow> cstate" where
  "initialState stages = \<lparr>exclusions = buildExclusions [] stages, selected = []\<rparr>"

definition compileStages :: "fsys \<Rightarrow> buildStage list \<Rightarrow> panic + string list" where
  "compileStages fs stages =
     (if length stages = 0 then Inr []
      else case stagesLoop fs stages (initialState stages) of
             Inl p \<Rightarrow> Inl p
           | Inr s \<Rightarrow> Inr (selected s))"

section \<open>loadStages (backup.go, lines 221-250)\<close>

text \<open>
  \<^verbatim>\<open>strings.TrimSpace\<close> on the ASCII white space characters (the two-byte encodings of
  U+0085 and U+00A0, which it also trims, are left out).
\<close>

definition isSpace :: "char \<Rightarrow> bool" where
  "isSpace c =
     (c = CHR '' '' \<or> c = CHR 0x09 \<or> c = CHR 0x0A \<or> c = CHR 0x0B \<or> c = CHR 0x0C \<or> c = CHR 0x0D)"

definition TrimSpace :: "string \<Rightarrow> string" where
  "TrimSpace s = rev (dropWhile isSpace (rev (dropWhile isSpace s)))"

text \<open>
  \<^verbatim>\<open>stage.rules = append(stage.rules, r)\<close>, where \<^verbatim>\<open>stage\<close> points to the last element
  of \<^verbatim>\<open>stages\<close>.
\<close>

fun appendRule :: "buildRule \<Rightarrow> buildStage list \<Rightarrow> buildStage list" where
  "appendRule r [] = []"
| "appendRule r [stage] = [stage\<lparr>rules := rules stage @ [r]\<rparr>]"
| "appendRule r (stage # rest) = stage # appendRule r rest"

text \<open>
  The loop over the lines the scanner yields; \<open>i\<close> is the line number, \<open>hasStage\<close> says
  that the pointer \<^verbatim>\<open>stage\<close> is not nil.
\<close>

fun scanLoop :: "string \<Rightarrow> string list \<Rightarrow> int \<Rightarrow> bool \<Rightarrow> buildStage list \<Rightarrow> buildStage list" where
  "scanLoop name [] i hasStage stages = stages"
| "scanLoop name (t # rest) i hasStage stages =
     (let ln = TrimSpace t in
      if ln = ''[include]'' then
        scanLoop name rest (i + 1) True (stages @ [\<lparr>include' = True, source = name, rules = []\<rparr>])
      else if ln = ''[exclude]'' then
        scanLoop name rest (i + 1) True (stages @ [\<lparr>include' = False, source = name, rules = []\<rparr>])
      else if ln = [] then scanLoop name rest (i + 1) hasStage stages
      else if \<not> hasStage then scanLoop name rest (i + 1) hasStage stages
      else scanLoop name rest (i + 1) hasStage (appendRule \<lparr>glob = ln, line = i\<rparr> stages))"

text \<open>\<^verbatim>\<open>loadStages\<close> of the file \<open>name\<close> whose lines are \<open>lns\<close>; its error is always nil.\<close>

definition loadStages :: "string \<Rightarrow> string list \<Rightarrow> buildStage list \<Rightarrow> buildStage list" where
  "loadStages name lns stages = scanLoop name lns 1 False stages"

section \<open>Metadata capture: buildTarHeader (part_000, lines 21-109)\<close>

text \<open>
  \<^verbatim>\<open>unix.Stat_t\<close>, the fields the program reads (\<open>st_mode\<close> is \<^verbatim>\<open>Mode\<close>, and so on; the
  names of \<^verbatim>\<open>tar.Header\<close> keep the plain ones). A \<^verbatim>\<open>Timespec\<close> is seconds and nanoseconds.
\<close>

type_synonym Timespec = "int \<times> int"

record Stat_t =
  st_mode :: "32 word"
  st_uid :: "32 word"
  st_gid :: "32 word"
  st_size :: int
  st_mtim :: Timespec
  st_atim :: Timespec
  st_ctim :: Timespec

record Header =
  Name :: string
  Mode :: int
  Uid :: int
  Gid :: int
  Size :: int
  Uname :: string
  Gname :: string
  ModTime :: Timespec
  Typeflag :: char
  Linkname :: string
  AccessTime :: Timespec
  ChangeTime :: Timespec

text \<open>The file type bits of \<^verbatim>\<open>st_mode\<close> and the type flags of package \<^verbatim>\<open>archive/tar\<close>.\<close>

definition S_IFMT :: "32 word" where "S_IFMT = 0xF000"
definition S_IFDIR :: "32 word" where "S_IFDIR = 0x4000"
definition S_IFLNK :: "32 word" where "S_IFLNK = 0xA000"
definition S_IFBLK :: "32 word" where "S_IFBLK = 0x6000"
definition S_IFCHR :: "32 word" where "S_IFCHR = 0x2000"
definition S_IFIFO :: "32 word" where "S_IFIFO = 0x1000"

definition TypeReg :: char where "TypeReg = CHR ''0''"
definition TypeSymlink :: char where "TypeSymlink = CHR ''2''"
definition TypeChar :: char where "TypeChar = CHR ''3''"
definition TypeBlock :: char where "TypeBlock = CHR ''4''"
definition TypeDir :: char where "TypeDir = CHR ''5''"
definition TypeFifo :: char where "TypeFifo = CHR ''6''"

text \<open>
  The system calls of the capture: \<open>Lstat p\<close> is the result of \<^verbatim>\<open>unix.Lstat\<close> (\<open>None\<close> when
  it fails), \<open>getpwuid_r\<close> and \<open>getgrgid_r\<close> give the name the lookup finds (\<open>None\<close> when
  the result pointer is NULL: no entry, or an entry that does not fit the buffer of 100
  bytes), \<open>Readlink p\<close> the target of a symlink (\<open>None\<close> when \<^verbatim>\<open>os.Readlink\<close> fails).
\<close>

record unixenv =
  Lstat :: "string \<Rightarrow> Stat_t option"
  getpwuid_r :: "32 word \<Rightarrow> string option"
  getgrgid_r :: "32 word \<Rightarrow> string option"
  Readlink :: "string \<Rightarrow> string option"

text \<open>
  The C function \<^verbatim>\<open>convertIds\<close>: a name stays NULL (\<open>None\<close>) when its lookup finds
  nothing. \<^verbatim>\<open>C.GoString\<close> of NULL is the empty string.
\<close>

record names_t =
  username :: "string option"
  groupname :: "string option"

definition convertIds :: "unixenv \<Rightarrow> 32 word \<Rightarrow> 32 word \<Rightarrow> names_t" where
  "convertIds env uid gid = \<lparr>username = getpwuid_r env uid, groupname = getgrgid_r env gid\<rparr>"

definition GoString :: "string option \<Rightarrow> string" where
  "GoString p = (case p of None \<Rightarrow> [] | Some s \<Rightarrow> s)"

text \<open>
  \<^verbatim>\<open>time.Unix(sec, nsec)\<close> brings the nanoseconds into the range from 0 to 999999999; \<open>quo\<close>
  is the truncating division of Go. The overflow of \<^verbatim>\<open>int64\<close> is left out.
\<close>

definition quo :: "int \<Rightarrow> int \<Rightarrow> int" where
  "quo a b = (if (a < 0) = (b < 0) then \<bar>a\<bar> div \<bar>b\<bar> else - (\<bar>a\<bar> div \<bar>b\<bar>))"

definition timeUnix :: "Timespec \<Rightarrow> Timespec" where
  "timeUnix ts =
     (case ts of (sec, nsec) \<Rightarrow>
        if nsec < 0 \<or> nsec \<ge> 1000000000 then
          (let n = quo nsec 1000000000; sec1 = sec + n; nsec1 = nsec - n * 1000000000
           in if nsec1 < 0 then (sec1 - 1, nsec1 + 1000000000) else (sec1, nsec1))
        else (sec, nsec))"

text \<open>The switch of lines 79-93.\<close>

definition tarTypeOf :: "32 word \<Rightarrow> char" where
  "tarTypeOf mode =
     (let t = mode AND S_IFMT in
      if t = S_IFDIR then TypeDir
      else if t = S_IFLNK then TypeSymlink
      else if t = S_IFBLK then TypeBlock
      else if t = S_IFCHR then TypeChar
      else if t = S_IFIFO then TypeFifo
      else TypeReg)"

text \<open>
  \<^verbatim>\<open>buildTarHeader\<close>; \<open>None\<close> is the nil header. \<^verbatim>\<open>Mode\<close> is an \<^verbatim>\<open>int64\<close> and \<^verbatim>\<open>Uid\<close>, \<^verbatim>\<open>Gid\<close> are
  \<^verbatim>\<open>int\<close> (64 bits on the platforms of \<^verbatim>\<open>unix.Stat_t\<close> with these field types), so the
  conversions from \<^verbatim>\<open>uint32\<close> keep the value.
\<close>

definition buildTarHeader :: "unixenv \<Rightarrow> string \<Rightarrow> Header option" where
  "buildTarHeader env path =
     (case Lstat env path of
        None \<Rightarrow> None
      | Some info \<Rightarrow>
          (let names = convertIds env (st_uid info) (st_gid info);
               uname = GoString (username names);
               gname = GoString (groupname names);
               linkname = (case Readlink env path of None \<Rightarrow> [] | Some target \<Rightarrow> target);
               tarType = tarTypeOf (st_mode info)
           in Some \<lparr>Name = path,
                     Mode = uint (st_mode info),
                     Uid = uint (st_uid info),
                     Gid = uint (st_gid info),
                     Size = st_size info,
                     Uname = uname,
                     Gname = gname,
                     ModTime = timeUnix (st_mtim info),
                     Typeflag = tarType,
                     Linkname = linkname,
                     AccessTime = timeUnix (st_atim info),
                     ChangeTime = timeUnix (st_ctim info)\<rparr>))"

section \<open>The archive pipeline\<close>

text \<open>A Go \<^verbatim>\<open>error\<close> value, by its message.\<close>

datatype goError = Error string

fun errorText :: "goError \<Rightarrow> string" where
  "errorText (Error msg) = msg"

text \<open>
  What a run touches besides the file tree: the bytes the destination sink has received,
  the bytes the tar writer has handed to the writer below it, the lines printed on
  standard error, how often a password was read from the terminal and how often random
  bytes were drawn, and the passphrase string as it stays in memory once read.
\<close>

record world =
  sink :: string
  tarStream :: string
  stderr :: "string list"
  passwordReads :: nat
  randReads :: nat
  passphrase :: "string option"

text \<open>
  The calls \<^verbatim>\<open>archiveFile\<close> makes: \<open>Open p\<close> is the error of \<^verbatim>\<open>os.Open(p)\<close> (\<open>None\<close> when
  the file opens); \<open>WriteHeader h\<close> and \<open>Copy p\<close> give the bytes the tar writer passes
  on during \<^verbatim>\<open>archiver.WriteHeader(h)\<close> and \<^verbatim>\<open>io.Copy(archiver, file)\<close>, and the error
  of the call.
\<close>

record tarenv =
  Open :: "string \<Rightarrow> goError option"
  capture :: unixenv
  WriteHeader :: "Header \<Rightarrow> string \<times> goError option"
  Copy :: "string \<Rightarrow> string \<times> goError option"

text \<open>\<^verbatim>\<open>archiveFile\<close> (lines 394-419): the error it returns, and the world after it.\<close>

definition archiveFile :: "tarenv \<Rightarrow> string \<Rightarrow> world \<Rightarrow> goError option \<times> world" where
  "archiveFile env path w =
     (case Open env path of
        Some err \<Rightarrow>
          (None, w\<lparr>stderr := stderr w @ [''Unable to open '' @ [CHR 0x27] @ path @ [CHR 0x27] @ '': '' @ errorText err]\<rparr>)
      | None \<Rightarrow>
          (case buildTarHeader (capture env) path of
             None \<Rightarrow> (None, w)
           | Some header \<Rightarrow>
               (case WriteHeader env header of
                  (hbytes, Some err) \<Rightarrow> (None, w\<lparr>tarStream := tarStream w @ hbytes\<rparr>)
                | (hbytes, None) \<Rightarrow>
                    if Typeflag header = TypeSymlink then
                      (None, w\<lparr>tarStream := tarStream w @ hbytes\<rparr>)
                    else
                      (case Copy env path of
                         (body, Some err) \<Rightarrow>
                           (Some (Error (''Error archiving '' @ [CHR 0x27] @ path @ [CHR 0x27] @ '': '' @ errorText err)),
                            w\<lparr>tarStream := tarStream w @ hbytes @ body\<rparr>)
                       | (body, None) \<Rightarrow>
                           (None, w\<lparr>tarStream := tarStream w @ hbytes @ body\<rparr>)))))"

text \<open>The loop of \<^verbatim>\<open>runBuild\<close>, lines 211-216: the first error ends it.\<close>

fun archiveLoop :: "tarenv \<Rightarrow> string list \<Rightarrow> world \<Rightarrow> goError option \<times> world" where
  "archiveLoop env [] w = (None, w)"
| "archiveLoop env (path # rest) w =
     (case archiveFile env path w of
        (Some err, w') \<Rightarrow> (Some err, w')
      | (None, w') \<Rightarrow> archiveLoop env rest w')"

section \<open>The confidentiality layer (backup.go, lines 343-392)\<close>

text \<open>
  A \<^verbatim>\<open>managedWriter\<close>: the cipher stream below it, given by its key and IV, and the
  password slice.
\<close>

record managedWriter =
  key :: string
  iv :: string
  password :: string

text \<open>\<^verbatim>\<open>managedWriter.Close\<close>: every byte of the password slice is set to zero.\<close>

definition Close :: "managedWriter \<Rightarrow> managedWriter" where
  "Close mw = mw\<lparr>password := map (\<lambda>b. CHR 0x00) (password mw)\<rparr>"

text \<open>
  What \<^verbatim>\<open>setupCryptoStream\<close> calls: \<^verbatim>\<open>term.ReadPassword\<close>, \<^verbatim>\<open>rand.Read\<close> on the 16 bytes of
  the IV, and \<^verbatim>\<open>output.Write\<close> of the IV, each with the error it may return.
\<close>

record cryptoenv =
  ReadPassword :: "goError + string"
  randRead :: "goError + string"
  outputWrite :: "string \<Rightarrow> goError option"

text \<open>Lines 367-371: the password is padded with zero bytes, or cut, to 32 bytes.\<close>

definition pad32 :: "string \<Rightarrow> string" where
  "pad32 pw =
     (if length pw < 32 then pw @ replicate (32 - length pw) (CHR 0x00)
      else if length pw > 32 then take 32 pw
      else pw)"

text \<open>
  \<^verbatim>\<open>setupCryptoStream\<close>: the writer or the error, and the world after the call. The
  password is a Go string, which nothing can overwrite; the writer holds a copy of its
  bytes.
\<close>

definition setupCryptoStream :: "cryptoenv \<Rightarrow> world \<Rightarrow> (goError + managedWriter) \<times> world" where
  "setupCryptoStream env w =
     (let w1 = w\<lparr>passwordReads := passwordReads w + 1\<rparr> in
      case ReadPassword env of
        Inl err \<Rightarrow> (Inl err, w1)
      | Inr pw \<Rightarrow>
          (let pw32 = pad32 pw;
               w2 = w1\<lparr>passphrase := Some pw32, randReads := randReads w1 + 1\<rparr> in
           case randRead env of
             Inl err \<Rightarrow> (Inl err, w2)
           | Inr ivb \<Rightarrow>
               (case outputWrite env ivb of
                  Some err \<Rightarrow> (Inl err, w2)
                | None \<Rightarrow>
                    (Inr \<lparr>key = pw32, iv = ivb, password = pw32\<rparr>,
                     w2\<lparr>sink := sink w2 @ ivb\<rparr>))))"

section \<open>runBuild (backup.go, lines 151-218)\<close>

text \<open>
  The surroundings of a build: \<open>listFile p\<close> is the error of opening the list file \<open>p\<close> or
  the lines the scanner reads from it; \<open>OpenFile p\<close> the error of opening the output \<open>p\<close>;
  \<open>goHome\<close> the error of the change to the home directory; \<open>home\<close> the file system seen
  from there; \<open>emit\<close> the calls of \<^verbatim>\<open>archiveFile\<close>; \<open>tarClose ts\<close> the bytes \<^verbatim>\<open>archiver.Close\<close>
  adds to the tar stream \<open>ts\<close>; \<open>gzip ts\<close> the bytes the compressor has written to the
  output by the end of \<^verbatim>\<open>compressor.Close\<close> when it was given \<open>ts\<close>; \<open>crypto\<close> the terminal
  and the random source. Several outputs receive the same bytes; \<open>sink\<close> is what each
  receives.
\<close>

record buildenv =
  listFile :: "string \<Rightarrow> goError + string list"
  OpenFile :: "string \<Rightarrow> goError option"
  goHome :: "goError option"
  home :: fsys
  emit :: tarenv
  tarClose :: "string \<Rightarrow> string"
  gzip :: "string \<Rightarrow> string"
  crypto :: cryptoenv

text \<open>The loop of lines 153-165: a list file that cannot be opened is reported and left out.\<close>

fun loadLists :: "buildenv \<Rightarrow> string list \<Rightarrow> buildStage list \<Rightarrow> world \<Rightarrow> buildStage list \<times> world" where
  "loadLists env [] stages w = (stages, w)"
| "loadLists env (listPath # rest) stages w =
     (case listFile env listPath of
        Inl err \<Rightarrow>
          loadLists env rest stages
            (w\<lparr>stderr := stderr w @
               [''Unable to open list file '' @ [CHR 0x27] @ listPath @ [CHR 0x27] @ '': '' @ errorText err]\<rparr>)
      | Inr lns \<Rightarrow> loadLists env rest (loadStages listPath lns stages) w)"

text \<open>The loop of lines 172-179: the first output that cannot be opened ends the run.\<close>

fun openOutputs :: "buildenv \<Rightarrow> string list \<Rightarrow> goError option" where
  "openOutputs env [] = None"
| "openOutputs env (outPath # rest) =
     (case OpenFile env outPath of Some err \<Rightarrow> Some err | None \<Rightarrow> openOutputs env rest)"

text \<open>
  \<^verbatim>\<open>runBuild\<close>. The tar writer is created over the compressor, the compressor over the
  output (lines 206-209); the lines that would create the cipher stream are comments
  (lines 197-204). The deferred calls close the archiver, then the compressor, also
  when the loop ends with an error. A panic of \<^verbatim>\<open>compileStages\<close> ends the program.
\<close>

definition runBuild :: "buildenv \<Rightarrow> string list \<Rightarrow> string list \<Rightarrow> world \<Rightarrow> panic + (goError option \<times> world)" where
  "runBuild env listPaths outPaths w =
     (case loadLists env listPaths [] w of (stages, w1) \<Rightarrow>
        (case openOutputs env outPaths of
           Some err \<Rightarrow> Inr (Some err, w1)
         | None \<Rightarrow>
             (case goHome env of
                Some err \<Rightarrow>
                  Inr (Some (Error (''Unable to chdir into home directory: '' @ errorText err)), w1)
              | None \<Rightarrow>
                  (case compileStages (home env) stages of
                     Inl p \<Rightarrow> Inl p
                   | Inr fileList \<Rightarrow>
                       (case archiveLoop (emit env) fileList (w1\<lparr>tarStream := []\<rparr>) of (err, w2) \<Rightarrow>
                          (let w3 = w2\<lparr>tarStream := tarStream w2 @ tarClose env (tarStream w2)\<rparr>;
                               w4 = w3\<lparr>sink := sink w3 @ gzip env (tarStream w3)\<rparr>
                           in Inr (err, w4)))))))"

section \<open>What the compiler is compared with\<close>

text \<open>
  The globs of the exclude stages of a sequence, in stage order: what the exclusion
  window is said to hold.
\<close>

definition excludePatterns :: "buildStage list \<Rightarrow> string list" where
  "excludePatterns stages =
     concat (map (\<lambda>stage. map glob (rules stage)) (filter (\<lambda>stage. \<not> include' stage) stages))"











section \<open>A directory that holds a.txt and secret.txt\<close>

text \<open>
  The file system of the ordering test: the working directory holds the regular files
  \<^verbatim>\<open>a.txt\<close> and \<^verbatim>\<open>secret.txt\<close> (mode 0644) and nothing else. \<open>homeMatch\<close> is
  \<^verbatim>\<open>filepath.Match\<close> on the pattern \<^verbatim>\<open>*.txt\<close> and on patterns without metacharacters,
  which match themselves only; \<open>homeGlob\<close> is \<^verbatim>\<open>filepath.Glob\<close> on the patterns of the
  test, the matches in sorted order; \<^verbatim>\<open>Lstat\<close> fails for every other path.
\<close>

definition homeMatch :: "string \<Rightarrow> string \<Rightarrow> bool" where
  "homeMatch pattern name =
     (if pattern = ''*.txt'' then
        CHR ''/'' \<notin> set name \<and> 4 \<le> length name \<and> drop (length name - 4) name = ''.txt''
      else pattern = name)"

definition homeGlob :: "string \<Rightarrow> string list" where
  "homeGlob pattern =
     (if pattern = ''*.txt'' then [''a.txt'', ''secret.txt'']
      else if pattern = ''a.txt'' \<or> pattern = ''secret.txt'' then [pattern]
      else [])"

definition homeTree :: "string \<Rightarrow> fnode" where
  "homeTree root =
     (if root = ''a.txt'' \<or> root = ''secret.txt'' then Node root (Some 420) []
      else Node root None [])"

definition homeDir :: fsys where
  "homeDir = \<lparr>Match = homeMatch, Glob = homeGlob, walkTree = homeTree\<rparr>"

text \<open>The rule file of the ordering test, line by line, and the stages it loads.\<close>

definition orderRules :: "string list" where
  "orderRules = [''[include]'', ''*.txt'', ''[exclude]'', ''secret.txt'', ''[include]'', ''secret.txt'']"

definition orderStages :: "buildStage list" where
  "orderStages =
     [\<lparr>include' = True, source = ''backup.list'', rules = [\<lparr>glob = ''*.txt'', line = 2\<rparr>]\<rparr>,
      \<lparr>include' = False, source = ''backup.list'', rules = [\<lparr>glob = ''secret.txt'', line = 4\<rparr>]\<rparr>,
      \<lparr>include' = True, source = ''backup.list'', rules = [\<lparr>glob = ''secret.txt'', line = 6\<rparr>]\<rparr>]"




section \<open>A test environment for the archive pipeline\<close>

text \<open>
  Every path but \<^verbatim>\<open>ghost.txt\<close> is a regular file of mode 0100644, owned by uid 1000
  (alice) and gid 4242 (no group entry); \<^verbatim>\<open>gone.txt\<close> cannot be opened, the header of
  \<^verbatim>\<open>long.txt\<close> is refused, and copying \<^verbatim>\<open>secret.txt\<close> fails after two bytes.
\<close>

definition plainStat :: Stat_t where
  "plainStat = \<lparr>st_mode = 33188, st_uid = 1000, st_gid = 4242, st_size = 3,
                 st_mtim = (1500000000, 0), st_atim = (1500000000, 0), st_ctim = (1500000000, 0)\<rparr>"

definition plainHeader :: "string \<Rightarrow> Header" where
  "plainHeader p =
     \<lparr>Name = p, Mode = 33188, Uid = 1000, Gid = 4242, Size = 3, Uname = ''alice'', Gname = [],
      ModTime = (1500000000, 0), Typeflag = TypeReg, Linkname = [],
      AccessTime = (1500000000, 0), ChangeTime = (1500000000, 0)\<rparr>"

definition flakyUnix :: unixenv where
  "flakyUnix =
     \<lparr>Lstat = (\<lambda>p. if p = ''ghost.txt'' then None else Some plainStat),
      getpwuid_r = (\<lambda>uid. if uid = 1000 then Some ''alice'' else None),
      getgrgid_r = (\<lambda>gid. None),
      Readlink = (\<lambda>p. None)\<rparr>"

definition flakyIO :: tarenv where
  "flakyIO =
     \<lparr>Open = (\<lambda>p. if p = ''gone.txt'' then Some (Error ''no such file or directory'') else None),
      capture = flakyUnix,
      WriteHeader = (\<lambda>h. if Name h = ''long.txt'' then ([], Some (Error ''header too long''))
                          else (''H:'' @ Name h @ '';'', None)),
      Copy = (\<lambda>p. if p = ''secret.txt'' then (''ab'', Some (Error ''input/output error''))
                    else (''abc'', None))\<rparr>"

definition world0 :: world where
  "world0 = \<lparr>sink = [], tarStream = [], stderr = [], passwordReads = 0, randReads = 0,
             passphrase = None\<rparr>"

text \<open>
  A build from the rule file of the ordering test, in the directory with \<^verbatim>\<open>a.txt\<close> and
  \<^verbatim>\<open>secret.txt\<close>, to standard output.
\<close>

definition orderBuild :: buildenv where
  "orderBuild =
     \<lparr>listFile = (\<lambda>p. if p = ''backup.list'' then Inr orderRules
                         else Inl (Error ''no such file or directory'')),
      OpenFile = (\<lambda>p. None),
      goHome = None,
      home = homeDir,
      emit = flakyIO,
      tarClose = (\<lambda>ts. ''EOF''),
      gzip = (\<lambda>ts. ''gz('' @ ts @ '')''),
      crypto = \<lparr>ReadPassword = Inr ''hunter2'',
                 randRead = Inl (Error ''entropy source unavailable''),
                 outputWrite = (\<lambda>b. None)\<rparr>\<rparr>"

section \<open>Lemmas on the exclusion window\<close>

lemma appendGlobs_eq: "appendGlobs excl rs = excl @ map glob rs"
  by (induction rs arbitrary: excl) simp_all

lemma excludePatterns_Nil: "excludePatterns [] = []"
  by (simp add: excludePatterns_def)

lemma excludePatterns_Cons:
  "excludePatterns (stage # rest) =
     (if include' stage then excludePatterns rest else map glob (rules stage) @ excludePatterns rest)"
  by (simp add: excludePatterns_def)

lemma buildExclusions_eq: "buildExclusions excl stages = excl @ excludePatterns stages"
  by (induction stages arbitrary: excl)
     (simp_all add: excludePatterns_Nil excludePatterns_Cons appendGlobs_eq)

lemma stagesLoop_append:
  "stagesLoop fs (xs @ ys) s =
     (case stagesLoop fs xs s of Inl p \<Rightarrow> Inl p | Inr s' \<Rightarrow> stagesLoop fs ys s')"
  by (induction xs arbitrary: s) (simp_all split: sum.splits)

lemma stagesLoop_window:
  "exclusions s = excludePatterns (xs @ ys) \<Longrightarrow> stagesLoop fs xs s = Inr s' \<Longrightarrow>
     exclusions s' = excludePatterns ys"
proof (induction xs arbitrary: s)
  case Nil
  then show ?case by simp
next
  case (Cons stage xs)
  show ?case
  proof (cases "include' stage")
    case True
    with Cons.prems obtain l where
      "stagesLoop fs xs (s\<lparr>selected := l\<rparr>) = Inr s'"
      by (auto split: sum.splits)
    moreover have "exclusions (s\<lparr>selected := l\<rparr>) = excludePatterns (xs @ ys)"
      using Cons.prems(1) True by (simp add: excludePatterns_Cons)
    ultimately show ?thesis by (rule Cons.IH[rotated])
  next
    case False
    with Cons.prems have
      "stagesLoop fs xs (s\<lparr>exclusions := drop (length (rules stage)) (exclusions s)\<rparr>) = Inr s'"
      by (auto split: if_splits)
    moreover have "exclusions (s\<lparr>exclusions := drop (length (rules stage)) (exclusions s)\<rparr>)
        = excludePatterns (xs @ ys)"
      using Cons.prems(1) False by (simp add: excludePatterns_Cons)
    ultimately show ?thesis by (rule Cons.IH[rotated])
  qed
qed

lemma stagesLoop_exclude_only:
  "\<forall>stage\<in>set xs. \<not> include' stage \<Longrightarrow> exclusions s = excludePatterns (xs @ ys) \<Longrightarrow>
     stagesLoop fs xs s = Inr (s\<lparr>exclusions := excludePatterns ys\<rparr>)"
proof (induction xs arbitrary: s)
  case Nil
  then show ?case by simp
next
  case (Cons stage xs)
  let ?s = "s\<lparr>exclusions := drop (length (rules stage)) (exclusions s)\<rparr>"
  have ex: "\<not> include' stage" using Cons.prems(1) by simp
  have len: "length (rules stage) \<le> length (exclusions s)"
    using Cons.prems(2) ex by (simp add: excludePatterns_Cons)
  have "exclusions ?s = excludePatterns (xs @ ys)"
    using Cons.prems(2) ex by (simp add: excludePatterns_Cons)
  moreover have "\<forall>stage\<in>set xs. \<not> include' stage" using Cons.prems(1) by simp
  ultimately have "stagesLoop fs xs ?s = Inr (?s\<lparr>exclusions := excludePatterns ys\<rparr>)"
    by (rule Cons.IH[rotated])
  then show ?case using ex len by simp
qed

section \<open>Lemmas on the walk\<close>









section \<open>The selection as a concatenation of walks\<close>

















section \<open>Lemmas on file modes and on the test directory\<close>




lemma regular_420: "\<not> IsDir 420" "\<not> skipFileType 420"
  by (simp_all add: IsDir_def skipFileType_def IsRegular_def ModeType_def ModeDir_def ModeTemporary_def
      ModeSymlink_def ModeNamedPipe_def ModeSocket_def ModeDevice_def ModeCharDevice_def ModeIrregular_def)


lemma homeDir_simps:
  "Match homeDir = homeMatch" "Glob homeDir = homeGlob" "walkTree homeDir = homeTree"
  by (simp_all add: homeDir_def)

lemmas home_eval = Walk_def walkFn_def regular_420 homeDir_simps homeMatch_def homeGlob_def
  homeTree_def Base_def

lemma loadStages_orderRules: "loadStages ''backup.list'' orderRules [] = orderStages"
  by (simp add: loadStages_def orderRules_def orderStages_def TrimSpace_def isSpace_def Let_def)

lemma orderStages_initial: "initialState orderStages = \<lparr>exclusions = [''secret.txt''], selected = []\<rparr>"
  by (simp add: initialState_def orderStages_def)

lemma orderStages_run1:
  "stagesLoop homeDir (take 1 orderStages) (initialState orderStages)
     = Inr \<lparr>exclusions = [''secret.txt''], selected = [''a.txt'']\<rparr>"
  unfolding orderStages_initial by (simp add: orderStages_def home_eval)

section \<open>The exclusion window\<close>

text \<open>
  Claim C1. The window starts as the globs of all exclude stages in stage order. When
  stage \<open>i\<close> is reached, in the state \<open>s\<close> the loop has after the first \<open>i\<close> stages: if the
  stage is an include stage, the window holds exactly the globs of the exclude stages
  after it; if it is an exclude stage with \<open>N\<close> rules, the window is at least \<open>N\<close> long
  (the slice expression does not panic), its first \<open>N\<close> entries are the globs of this
  stage, and the stage removes exactly these.
\<close>

theorem exclusion_window:
  "exclusions (initialState stages) = excludePatterns stages \<and>
   (\<forall>i s. i < length stages \<and> stagesLoop fs (take i stages) (initialState stages) = Inr s \<longrightarrow>
      stagesLoop fs stages (initialState stages) = stagesLoop fs (drop i stages) s \<and>
      (include' (stages ! i) \<longrightarrow> exclusions s = excludePatterns (drop (Suc i) stages)) \<and>
      (\<not> include' (stages ! i) \<longrightarrow>
         length (rules (stages ! i)) \<le> length (exclusions s) \<and>
         take (length (rules (stages ! i))) (exclusions s) = map glob (rules (stages ! i)) \<and>
         stagesLoop fs (take (Suc i) stages) (initialState stages) =
           Inr (s\<lparr>exclusions := drop (length (rules (stages ! i))) (exclusions s)\<rparr>) \<and>
         drop (length (rules (stages ! i))) (exclusions s) = excludePatterns (drop (Suc i) stages)))"
proof -
  have init: "exclusions (initialState stages) = excludePatterns stages"
    by (simp add: initialState_def buildExclusions_eq)
  have step: "stagesLoop fs stages (initialState stages) = stagesLoop fs (drop i stages) s \<and>
      (include' (stages ! i) \<longrightarrow> exclusions s = excludePatterns (drop (Suc i) stages)) \<and>
      (\<not> include' (stages ! i) \<longrightarrow>
         length (rules (stages ! i)) \<le> length (exclusions s) \<and>
         take (length (rules (stages ! i))) (exclusions s) = map glob (rules (stages ! i)) \<and>
         stagesLoop fs (take (Suc i) stages) (initialState stages) =
           Inr (s\<lparr>exclusions := drop (length (rules (stages ! i))) (exclusions s)\<rparr>) \<and>
         drop (length (rules (stages ! i))) (exclusions s) = excludePatterns (drop (Suc i) stages))"
    if i: "i < length stages"
      and run: "stagesLoop fs (take i stages) (initialState stages) = Inr s" for i s
  proof -
    have split: "stages = take i stages @ drop i stages" by simp
    have "exclusions (initialState stages) = excludePatterns (take i stages @ drop i stages)"
      using init by simp
    from stagesLoop_window[OF this run]
    have win: "exclusions s = excludePatterns (drop i stages)" .
    have d: "drop i stages = stages ! i # drop (Suc i) stages"
      using i by (simp add: Cons_nth_drop_Suc)
    have whole: "stagesLoop fs stages (initialState stages) = stagesLoop fs (drop i stages) s"
      using stagesLoop_append[of fs "take i stages" "drop i stages" "initialState stages"] run
      by simp
    have t: "take (Suc i) stages = take i stages @ [stages ! i]"
      using i by (simp add: take_Suc_conv_app_nth)
    have next_state: "stagesLoop fs (take (Suc i) stages) (initialState stages)
        = stagesLoop fs [stages ! i] s"
      unfolding t using stagesLoop_append[of fs "take i stages" "[stages ! i]" "initialState stages"] run
      by simp
    show ?thesis
      using win whole next_state unfolding d by (simp add: excludePatterns_Cons)
  qed
  show ?thesis using init step by blast
qed

theorem exclusion_window_witness:
  "(0 < length orderStages \<and>
    stagesLoop homeDir (take 0 orderStages) (initialState orderStages)
      = Inr \<lparr>exclusions = [''secret.txt''], selected = []\<rparr> \<and>
    include' (orderStages ! 0) \<and>
    excludePatterns (drop (Suc 0) orderStages) = [''secret.txt'']) \<and>
   (1 < length orderStages \<and>
    stagesLoop homeDir (take 1 orderStages) (initialState orderStages)
      = Inr \<lparr>exclusions = [''secret.txt''], selected = [''a.txt'']\<rparr> \<and>
    \<not> include' (orderStages ! 1) \<and>
    stagesLoop homeDir (take (Suc 1) orderStages) (initialState orderStages)
      = Inr \<lparr>exclusions = [], selected = [''a.txt'']\<rparr>)"
proof -
  have h0: "0 < length orderStages \<and>
    stagesLoop homeDir (take 0 orderStages) (initialState orderStages)
      = Inr \<lparr>exclusions = [''secret.txt''], selected = []\<rparr>"
    by (simp add: orderStages_initial) (simp add: orderStages_def)
  have i0: "include' (orderStages ! 0)" by (simp add: orderStages_def)
  have h1: "1 < length orderStages \<and>
    stagesLoop homeDir (take 1 orderStages) (initialState orderStages)
      = Inr \<lparr>exclusions = [''secret.txt''], selected = [''a.txt'']\<rparr>"
    using orderStages_run1 by (simp add: orderStages_def)
  have i1: "\<not> include' (orderStages ! 1)" by (simp add: orderStages_def)
  have r1: "rules (orderStages ! 1) = [\<lparr>glob = ''secret.txt'', line = 4\<rparr>]"
    by (simp add: orderStages_def)
  note w = exclusion_window[of orderStages homeDir, THEN conjunct2, rule_format]
  from w[OF h0] i0 have "excludePatterns (drop (Suc 0) orderStages) = [''secret.txt'']"
    by simp
  moreover from w[OF h1] i1 r1
  have "stagesLoop homeDir (take (Suc 1) orderStages) (initialState orderStages)
      = Inr \<lparr>exclusions = [], selected = [''a.txt'']\<rparr>"
    by simp
  ultimately show ?thesis using h0 i0 h1 i1 by blast
qed

text \<open>
  Claim C7. A stage sequence without an include stage compiles to the empty selection,
  and so does the empty sequence; neither panics.
\<close>

theorem only_excludes_empty:
  "compileStages fs [] = Inr [] \<and>
   ((\<forall>stage\<in>set stages. \<not> include' stage) \<longrightarrow> compileStages fs stages = Inr [])"
proof -
  have "compileStages fs stages = Inr []" if h: "\<forall>stage\<in>set stages. \<not> include' stage"
  proof -
    have "exclusions (initialState stages) = excludePatterns (stages @ [])"
      by (simp add: buildExclusions_eq initialState_def)
    with h have "stagesLoop fs stages (initialState stages)
         = Inr ((initialState stages)\<lparr>exclusions := excludePatterns []\<rparr>)"
      by (rule stagesLoop_exclude_only)
    then show ?thesis by (simp add: compileStages_def initialState_def)
  qed
  then show ?thesis by (simp add: compileStages_def)
qed

theorem only_excludes_empty_witness:
  "\<not> include' \<lparr>include' = False, source = ''backup.list'', rules = [\<lparr>glob = ''*.txt'', line = 2\<rparr>]\<rparr> \<and>
   compileStages homeDir
     [\<lparr>include' = False, source = ''backup.list'', rules = [\<lparr>glob = ''*.txt'', line = 2\<rparr>]\<rparr>] = Inr []"
  using only_excludes_empty[of homeDir
      "[\<lparr>include' = False, source = ''backup.list'', rules = [\<lparr>glob = ''*.txt'', line = 2\<rparr>]\<rparr>]"]
  by simp

section \<open>Order sensitivity\<close>

text \<open>
  Claim C2, as stated, fails: on the directory with \<^verbatim>\<open>a.txt\<close> and \<^verbatim>\<open>secret.txt\<close> the
  rule file of the test selects \<^verbatim>\<open>a.txt\<close> and then \<^verbatim>\<open>secret.txt\<close>, not \<^verbatim>\<open>a.txt\<close> alone.
\<close>

theorem order_test_counterexample:
  "compileStages homeDir (loadStages ''backup.list'' orderRules []) = Inr [''a.txt'', ''secret.txt''] \<and>
   compileStages homeDir (loadStages ''backup.list'' orderRules []) \<noteq> Inr [''a.txt'']"
  unfolding loadStages_orderRules
  by (simp add: compileStages_def initialState_def orderStages_def home_eval)

text \<open>
  Claim C2, amended. In the sequence include \<open>A\<close>, exclude \<open>B\<close>, include \<open>C\<close>, the rules
  of \<open>A\<close> are walked under the globs of \<open>B\<close> (the exclude stage that follows), the rules
  of \<open>C\<close> under the empty window, which excludes nothing. On the test directory the rule
  file selects \<^verbatim>\<open>a.txt\<close> (first include; its \<^verbatim>\<open>secret.txt\<close> is excluded) and then
  \<^verbatim>\<open>secret.txt\<close> (second include).
\<close>

theorem order_sensitivity:
  "compileStages fs
     [\<lparr>include' = True, source = a, rules = A\<rparr>,
      \<lparr>include' = False, source = b, rules = B\<rparr>,
      \<lparr>include' = True, source = c, rules = C\<rparr>] =
     (case includeRules fs (map glob B) A [] of
        Inl p \<Rightarrow> Inl p
      | Inr l \<Rightarrow> includeRules fs [] C l) \<and>
   isExcluded fs [] wpath = False \<and>
   compileStages homeDir (loadStages ''backup.list'' orderRules []) = Inr [''a.txt'', ''secret.txt'']"
proof -
  have "compileStages homeDir (loadStages ''backup.list'' orderRules []) = Inr [''a.txt'', ''secret.txt'']"
    unfolding loadStages_orderRules
    by (simp add: compileStages_def initialState_def orderStages_def home_eval)
  then show ?thesis
    by (simp add: compileStages_def initialState_def appendGlobs_eq split: sum.splits)
qed

section \<open>Order and repetition in the selection\<close>




section \<open>Exclusion during the walk\<close>




section \<open>Lemmas on the archive pipeline and its test environment\<close>

lemma archiveLoop_append:
  "archiveLoop env (pre @ post) w =
     (case archiveLoop env pre w of
        (Some err, w') \<Rightarrow> (Some err, w')
      | (None, w') \<Rightarrow> archiveLoop env post w')"
  by (induction pre arbitrary: w) (auto split: prod.splits option.splits)

lemma flakyIO_simps:
  "Open flakyIO = (\<lambda>p. if p = ''gone.txt'' then Some (Error ''no such file or directory'') else None)"
  "capture flakyIO = flakyUnix"
  "WriteHeader flakyIO = (\<lambda>h. if Name h = ''long.txt'' then ([], Some (Error ''header too long''))
                          else (''H:'' @ Name h @ '';'', None))"
  "Copy flakyIO = (\<lambda>p. if p = ''secret.txt'' then (''ab'', Some (Error ''input/output error''))
                    else (''abc'', None))"
  by (simp_all add: flakyIO_def)

lemma flakyUnix_simps:
  "Lstat flakyUnix = (\<lambda>p. if p = ''ghost.txt'' then None else Some plainStat)"
  "getpwuid_r flakyUnix = (\<lambda>uid. if uid = 1000 then Some ''alice'' else None)"
  "getgrgid_r flakyUnix = (\<lambda>gid. None)"
  "Readlink flakyUnix = (\<lambda>p. None)"
  by (simp_all add: flakyUnix_def)

lemma plainStat_type: "tarTypeOf (st_mode plainStat) = TypeReg"
  by (simp add: plainStat_def tarTypeOf_def S_IFMT_def S_IFDIR_def S_IFLNK_def S_IFBLK_def
      S_IFCHR_def S_IFIFO_def)

lemma TypeReg_not_symlink: "TypeReg \<noteq> TypeSymlink"
  by (simp add: TypeReg_def TypeSymlink_def)

lemma flaky_header:
  "p \<noteq> ''ghost.txt'' \<Longrightarrow> buildTarHeader flakyUnix p =
     Some (plainHeader p)"
  by (simp add: buildTarHeader_def flakyUnix_simps Let_def convertIds_def GoString_def
      plainStat_type timeUnix_def plainHeader_def) (simp add: plainStat_def)

lemma flaky_ghost: "buildTarHeader flakyUnix ''ghost.txt'' = None"
  by (simp add: buildTarHeader_def flakyUnix_simps)

lemma orderBuild_simps:
  "listFile orderBuild ''backup.list'' = Inr orderRules"
  "OpenFile orderBuild = (\<lambda>p. None)" "goHome orderBuild = None" "home orderBuild = homeDir"
  "emit orderBuild = flakyIO" "tarClose orderBuild = (\<lambda>ts. ''EOF'')"
  "gzip orderBuild = (\<lambda>ts. ''gz('' @ ts @ '')'')"
  by (simp_all add: orderBuild_def)

lemma orderBuild_compile:
  "compileStages homeDir (loadStages ''backup.list'' orderRules []) = Inr [''a.txt'', ''secret.txt'']"
  unfolding loadStages_orderRules
  by (simp add: compileStages_def initialState_def orderStages_def home_eval)

lemma flaky_a: "archiveFile flakyIO ''a.txt'' w = (None, w\<lparr>tarStream := tarStream w @ ''H:a.txt;abc''\<rparr>)"
  by (simp add: archiveFile_def flakyIO_simps flaky_header plainHeader_def TypeReg_not_symlink)

lemma flaky_secret:
  "archiveFile flakyIO ''secret.txt'' w =
     (Some (Error (''Error archiving '' @ [CHR 0x27] @ ''secret.txt'' @ [CHR 0x27] @ '': input/output error'')),
      w\<lparr>tarStream := tarStream w @ ''H:secret.txt;ab''\<rparr>)"
  by (simp add: archiveFile_def flakyIO_simps flaky_header plainHeader_def TypeReg_not_symlink)

lemma orderBuild_run:
  "runBuild orderBuild [''backup.list''] [] world0 =
     Inr (Some (Error (''Error archiving '' @ [CHR 0x27] @ ''secret.txt'' @ [CHR 0x27] @ '': input/output error'')),
          world0\<lparr>tarStream := ''H:a.txt;abcH:secret.txt;abEOF'',
                  sink := ''gz(H:a.txt;abcH:secret.txt;abEOF)''\<rparr>)"
  by (simp add: runBuild_def orderBuild_simps orderBuild_compile flaky_a flaky_secret world0_def)

lemma setup_counts: "passwordReads (snd (setupCryptoStream c w)) = passwordReads w + 1"
  by (simp add: setupCryptoStream_def Let_def split: sum.splits option.splits)

lemma archiveFile_keeps:
  "archiveFile env path w = (r, w') \<Longrightarrow>
     sink w' = sink w \<and> passwordReads w' = passwordReads w \<and> randReads w' = randReads w \<and>
     passphrase w' = passphrase w"
  by (auto simp: archiveFile_def split: option.splits prod.splits if_splits)

lemma archiveLoop_keeps:
  "archiveLoop env paths w = (r, w') \<Longrightarrow>
     sink w' = sink w \<and> passwordReads w' = passwordReads w \<and> randReads w' = randReads w \<and>
     passphrase w' = passphrase w"
proof (induction paths arbitrary: w)
  case Nil
  then show ?case by simp
next
  case (Cons path rest)
  obtain r1 w1 where a: "archiveFile env path w = (r1, w1)" by (cases "archiveFile env path w")
  note k = archiveFile_keeps[OF a]
  show ?case
  proof (cases r1)
    case None
    with Cons.prems a have "archiveLoop env rest w1 = (r, w')" by simp
    from Cons.IH[OF this] k show ?thesis by simp
  next
    case (Some err)
    with Cons.prems a have "w' = w1" by simp
    with k show ?thesis by simp
  qed
qed

lemma loadLists_keeps:
  "loadLists env listPaths stages w = (stages', w') \<Longrightarrow>
     sink w' = sink w \<and> passwordReads w' = passwordReads w \<and> randReads w' = randReads w \<and>
     passphrase w' = passphrase w"
  by (induction listPaths arbitrary: stages w) (auto split: sum.splits)

section \<open>Archiving one file\<close>

text \<open>
  Claim C4. When the file cannot be opened, when the capture is absent, or when writing
  the header fails, \<^verbatim>\<open>archiveFile\<close> returns no error and no body byte is written, and the
  loop of the run goes on with the next file. When copying the body fails after the
  header was written, \<^verbatim>\<open>archiveFile\<close> returns an error; the loop ends with it, the files
  after it are not archived, and \<^verbatim>\<open>runBuild\<close> returns it.
\<close>

theorem archive_skip_or_abort:
  "(Open env path = Some e \<longrightarrow>
      fst (archiveFile env path w) = None \<and>
      tarStream (snd (archiveFile env path w)) = tarStream w) \<and>
   (Open env path = None \<and> buildTarHeader (capture env) path = None \<longrightarrow>
      archiveFile env path w = (None, w)) \<and>
   (Open env path = None \<and> buildTarHeader (capture env) path = Some h \<and>
    snd (WriteHeader env h) = Some e \<longrightarrow>
      archiveFile env path w = (None, w\<lparr>tarStream := tarStream w @ fst (WriteHeader env h)\<rparr>)) \<and>
   (fst (archiveFile env path w) = None \<longrightarrow>
      archiveLoop env (path # rest) w = archiveLoop env rest (snd (archiveFile env path w))) \<and>
   (Open env path = None \<and> buildTarHeader (capture env) path = Some h \<and>
    snd (WriteHeader env h) = None \<and> Typeflag h \<noteq> TypeSymlink \<and>
    snd (Copy env path) = Some e \<longrightarrow>
      fst (archiveFile env path w) =
        Some (Error (''Error archiving '' @ [CHR 0x27] @ path @ [CHR 0x27] @ '': '' @ errorText e))) \<and>
   (archiveLoop env pre w0 = (None, w) \<and> fst (archiveFile env path w) = Some fatal \<longrightarrow>
      archiveLoop env (pre @ path # rest) w0 = (Some fatal, snd (archiveFile env path w))) \<and>
   (openOutputs benv outPaths = None \<and> goHome benv = None \<and>
    compileStages (home benv) (fst (loadLists benv listPaths [] w0)) = Inr fileList \<and>
    fst (archiveLoop (emit benv) fileList
           ((snd (loadLists benv listPaths [] w0))\<lparr>tarStream := []\<rparr>)) = Some fatal \<longrightarrow>
      (\<exists>w'. runBuild benv listPaths outPaths w0 = Inr (Some fatal, w')))"
proof -
  have a: "Open env path = Some e \<longrightarrow>
      fst (archiveFile env path w) = None \<and>
      tarStream (snd (archiveFile env path w)) = tarStream w"
    by (simp add: archiveFile_def)
  have b: "Open env path = None \<and> buildTarHeader (capture env) path = None \<longrightarrow>
      archiveFile env path w = (None, w)"
    by (simp add: archiveFile_def)
  have c: "Open env path = None \<and> buildTarHeader (capture env) path = Some h \<and>
    snd (WriteHeader env h) = Some e \<longrightarrow>
      archiveFile env path w = (None, w\<lparr>tarStream := tarStream w @ fst (WriteHeader env h)\<rparr>)"
    by (cases "WriteHeader env h") (simp add: archiveFile_def)
  have d: "fst (archiveFile env path w) = None \<longrightarrow>
      archiveLoop env (path # rest) w = archiveLoop env rest (snd (archiveFile env path w))"
    by (cases "archiveFile env path w") auto
  have e: "Open env path = None \<and> buildTarHeader (capture env) path = Some h \<and>
    snd (WriteHeader env h) = None \<and> Typeflag h \<noteq> TypeSymlink \<and>
    snd (Copy env path) = Some e \<longrightarrow>
      fst (archiveFile env path w) =
        Some (Error (''Error archiving '' @ [CHR 0x27] @ path @ [CHR 0x27] @ '': '' @ errorText e))"
    by (cases "WriteHeader env h"; cases "Copy env path") (simp add: archiveFile_def)
  have f: "archiveLoop env pre w0 = (None, w) \<and> fst (archiveFile env path w) = Some fatal \<longrightarrow>
      archiveLoop env (pre @ path # rest) w0 = (Some fatal, snd (archiveFile env path w))"
    by (cases "archiveFile env path w") (auto simp: archiveLoop_append)
  have g: "openOutputs benv outPaths = None \<and> goHome benv = None \<and>
    compileStages (home benv) (fst (loadLists benv listPaths [] w0)) = Inr fileList \<and>
    fst (archiveLoop (emit benv) fileList
           ((snd (loadLists benv listPaths [] w0))\<lparr>tarStream := []\<rparr>)) = Some fatal \<longrightarrow>
      (\<exists>w'. runBuild benv listPaths outPaths w0 = Inr (Some fatal, w'))"
    by (cases "loadLists benv listPaths [] w0";
        cases "archiveLoop (emit benv) fileList ((snd (loadLists benv listPaths [] w0))\<lparr>tarStream := []\<rparr>)")
       (auto simp: runBuild_def Let_def)
  show ?thesis using a b c d e f g by blast
qed

theorem archive_skip_or_abort_witness:
  "(Open flakyIO ''gone.txt'' = Some (Error ''no such file or directory'') \<and>
    fst (archiveFile flakyIO ''gone.txt'' world0) = None) \<and>
   (Open flakyIO ''ghost.txt'' = None \<and> buildTarHeader (capture flakyIO) ''ghost.txt'' = None \<and>
    archiveFile flakyIO ''ghost.txt'' world0 = (None, world0)) \<and>
   (Open flakyIO ''long.txt'' = None \<and>
    buildTarHeader (capture flakyIO) ''long.txt'' = Some (plainHeader ''long.txt'') \<and>
    snd (WriteHeader flakyIO (plainHeader ''long.txt'')) = Some (Error ''header too long'') \<and>
    archiveFile flakyIO ''long.txt'' world0 = (None, world0)) \<and>
   archiveLoop flakyIO [''long.txt'', ''a.txt''] world0 = archiveLoop flakyIO [''a.txt''] world0 \<and>
   (snd (Copy flakyIO ''secret.txt'') = Some (Error ''input/output error'') \<and>
    fst (archiveFile flakyIO ''secret.txt'' world0) =
      Some (Error (''Error archiving '' @ [CHR 0x27] @ ''secret.txt'' @ [CHR 0x27] @ '': input/output error''))) \<and>
   fst (archiveLoop flakyIO ([''gone.txt''] @ ''secret.txt'' # [''a.txt'']) world0) =
      Some (Error (''Error archiving '' @ [CHR 0x27] @ ''secret.txt'' @ [CHR 0x27] @ '': input/output error'')) \<and>
   (\<exists>w'. runBuild orderBuild [''backup.list''] [] world0 =
      Inr (Some (Error (''Error archiving '' @ [CHR 0x27] @ ''secret.txt'' @ [CHR 0x27] @ '': input/output error'')), w'))"
proof -
  let ?fatal = "Error (''Error archiving '' @ [CHR 0x27] @ ''secret.txt'' @ [CHR 0x27] @ '': input/output error'')"
  let ?h = plainHeader
  have gone: "Open flakyIO ''gone.txt'' = Some (Error ''no such file or directory'')"
    by (simp add: flakyIO_simps)
  have ghost: "Open flakyIO ''ghost.txt'' = None \<and> buildTarHeader (capture flakyIO) ''ghost.txt'' = None"
    by (simp add: flakyIO_simps flaky_ghost)
  have long: "Open flakyIO ''long.txt'' = None \<and>
      buildTarHeader (capture flakyIO) ''long.txt'' = Some (?h ''long.txt'') \<and>
      snd (WriteHeader flakyIO (?h ''long.txt'')) = Some (Error ''header too long'')"
    by (simp add: flakyIO_simps flaky_header plainHeader_def)
  have secret: "Open flakyIO ''secret.txt'' = None \<and>
      buildTarHeader (capture flakyIO) ''secret.txt'' = Some (?h ''secret.txt'') \<and>
      snd (WriteHeader flakyIO (?h ''secret.txt'')) = None \<and> Typeflag (?h ''secret.txt'') \<noteq> TypeSymlink \<and>
      snd (Copy flakyIO ''secret.txt'') = Some (Error ''input/output error'')"
    by (simp add: flakyIO_simps flaky_header plainHeader_def TypeReg_not_symlink)
  note t = archive_skip_or_abort
  have 1: "fst (archiveFile flakyIO ''gone.txt'' world0) = None"
    using t[where env = flakyIO and path = "''gone.txt''" and w = world0
        and e = "Error ''no such file or directory''"] gone by blast
  have 2: "archiveFile flakyIO ''ghost.txt'' world0 = (None, world0)"
    using t[where env = flakyIO and path = "''ghost.txt''" and w = world0] ghost by blast
  have 3: "archiveFile flakyIO ''long.txt'' world0 = (None, world0)"
    using t[where env = flakyIO and path = "''long.txt''" and w = world0
        and e = "Error ''header too long''" and h = "?h ''long.txt''"] long
    by (simp add: flakyIO_simps plainHeader_def)
  have 4: "archiveLoop flakyIO [''long.txt'', ''a.txt''] world0 = archiveLoop flakyIO [''a.txt''] world0"
    using t[where env = flakyIO and path = "''long.txt''" and w = world0 and rest = "[''a.txt'']"] 3
    by simp
  have 5: "fst (archiveFile flakyIO ''secret.txt'' world0) = Some ?fatal"
    using t[where env = flakyIO and path = "''secret.txt''" and w = world0
        and e = "Error ''input/output error''" and h = "?h ''secret.txt''"] secret
    by simp
  have pre: "archiveLoop flakyIO [''gone.txt''] world0 =
      (None, snd (archiveFile flakyIO ''gone.txt'' world0))"
    using 1 by (cases "archiveFile flakyIO ''gone.txt'' world0") simp
  have s5: "fst (archiveFile flakyIO ''secret.txt'' (snd (archiveFile flakyIO ''gone.txt'' world0))) = Some ?fatal"
    by (simp add: flaky_secret)
  have "archiveLoop flakyIO ([''gone.txt''] @ ''secret.txt'' # [''a.txt'']) world0 =
      (Some ?fatal, snd (archiveFile flakyIO ''secret.txt'' (snd (archiveFile flakyIO ''gone.txt'' world0))))"
    using t[where env = flakyIO and path = "''secret.txt''" and pre = "[''gone.txt'']"
        and ?w0.0 = world0 and w = "snd (archiveFile flakyIO ''gone.txt'' world0)"
        and fatal = ?fatal and rest = "[''a.txt'']"] pre s5
    by blast
  then have 6: "fst (archiveLoop flakyIO ([''gone.txt''] @ ''secret.txt'' # [''a.txt'']) world0) = Some ?fatal"
    by (simp only: fst_conv)
  have hyp7: "openOutputs orderBuild [] = None \<and> goHome orderBuild = None \<and>
      compileStages (home orderBuild) (fst (loadLists orderBuild [''backup.list''] [] world0))
        = Inr [''a.txt'', ''secret.txt''] \<and>
      fst (archiveLoop (emit orderBuild) [''a.txt'', ''secret.txt'']
             ((snd (loadLists orderBuild [''backup.list''] [] world0))\<lparr>tarStream := []\<rparr>)) = Some ?fatal"
    by (simp add: orderBuild_simps orderBuild_compile flaky_a flaky_secret)
  have 7: "\<exists>w'. runBuild orderBuild [''backup.list''] [] world0 = Inr (Some ?fatal, w')"
    using t[where benv = orderBuild and outPaths = "[]" and listPaths = "[''backup.list'']"
        and ?w0.0 = world0 and fileList = "[''a.txt'', ''secret.txt'']" and fatal = ?fatal] hyp7
    by blast
  show ?thesis using gone 1 ghost 2 long 3 4 secret 5 6 7 by simp
qed

section \<open>Metadata capture\<close>

text \<open>
  Claim C5. The capture is absent exactly when \<^verbatim>\<open>Lstat\<close> fails. When it succeeds the
  header records the numeric uid and gid, and a lookup that finds no name leaves the
  name field empty.
\<close>

theorem capture_absent_iff:
  "(buildTarHeader env path = None \<longleftrightarrow> Lstat env path = None) \<and>
   (\<forall>info. Lstat env path = Some info \<longrightarrow>
      (\<exists>h. buildTarHeader env path = Some h \<and>
           Uid h = uint (st_uid info) \<and> Gid h = uint (st_gid info) \<and>
           (getpwuid_r env (st_uid info) = None \<longrightarrow> Uname h = []) \<and>
           (getgrgid_r env (st_gid info) = None \<longrightarrow> Gname h = [])))"
  by (auto simp: buildTarHeader_def Let_def convertIds_def GoString_def split: option.splits)

theorem capture_absent_iff_witness:
  "Lstat flakyUnix ''ghost.txt'' = None \<and> buildTarHeader flakyUnix ''ghost.txt'' = None \<and>
   Lstat flakyUnix ''a.txt'' = Some plainStat \<and>
   getpwuid_r flakyUnix (st_uid plainStat) = Some ''alice'' \<and>
   getgrgid_r flakyUnix (st_gid plainStat) = None \<and>
   (\<exists>h. buildTarHeader flakyUnix ''a.txt'' = Some h \<and> Uid h = 1000 \<and> Gid h = 4242 \<and> Gname h = [])"
proof -
  have l: "Lstat flakyUnix ''ghost.txt'' = None" "Lstat flakyUnix ''a.txt'' = Some plainStat"
    by (simp_all add: flakyUnix_simps)
  have g: "getgrgid_r flakyUnix (st_gid plainStat) = None"
    "getpwuid_r flakyUnix (st_uid plainStat) = Some ''alice''"
    by (simp_all add: flakyUnix_simps plainStat_def)
  have ids: "uint (st_uid plainStat) = 1000" "uint (st_gid plainStat) = 4242"
    by (simp_all add: plainStat_def)
  note t = capture_absent_iff[of flakyUnix]
  have "buildTarHeader flakyUnix ''ghost.txt'' = None"
    using t[of "''ghost.txt''"] l(1) by blast
  moreover have "\<exists>h. buildTarHeader flakyUnix ''a.txt'' = Some h \<and> Uid h = 1000 \<and> Gid h = 4242 \<and> Gname h = []"
    using t[of "''a.txt''"] l(2) g ids by auto
  ultimately show ?thesis using l g by blast
qed

text \<open>
  Claim C10. The mode field of the header is the whole \<^verbatim>\<open>st_mode\<close>: its file type bits
  (\<^verbatim>\<open>S_IFMT\<close>) as well as its permission bits. A regular file of permissions 0644 gets
  the mode 0100644 (33188), not 0644 (420).
\<close>

theorem header_mode_raw:
  "Lstat env path = Some info \<longrightarrow>
     (\<exists>h. buildTarHeader env path = Some h \<and> Mode h = uint (st_mode info) \<and>
          (word_of_int (Mode h) :: 32 word) AND S_IFMT = st_mode info AND S_IFMT \<and>
          (word_of_int (Mode h) :: 32 word) AND 4095 = st_mode info AND 4095)"
  by (auto simp: buildTarHeader_def Let_def)

theorem header_mode_raw_witness:
  "Lstat flakyUnix ''a.txt'' = Some plainStat \<and> st_mode plainStat = 33188 \<and>
   (\<exists>h. buildTarHeader flakyUnix ''a.txt'' = Some h \<and> Mode h = 33188 \<and> Mode h \<noteq> 420)"
proof -
  have l: "Lstat flakyUnix ''a.txt'' = Some plainStat" by (simp add: flakyUnix_simps)
  have m: "st_mode plainStat = 33188" by (simp add: plainStat_def)
  have "\<exists>h. buildTarHeader flakyUnix ''a.txt'' = Some h \<and> Mode h = 33188 \<and> Mode h \<noteq> 420"
    using header_mode_raw[of flakyUnix "''a.txt''" plainStat] l m by auto
  then show ?thesis using l m by blast
qed

section \<open>The confidentiality layer\<close>

text \<open>
  Claim C8 does not hold of the code. When drawing the IV fails, and when writing the IV
  to the sink fails, \<^verbatim>\<open>setupCryptoStream\<close> returns the error and no writer, so that
  \<^verbatim>\<open>Close\<close> cannot be called, and the padded passphrase stays in memory as it was read.
  Only on the path that returns a writer does \<^verbatim>\<open>Close\<close> zero the password slice.
\<close>

theorem passphrase_left_after_failure:
  "setupCryptoStream
     \<lparr>ReadPassword = Inr ''hunter2'', randRead = Inl (Error ''entropy source unavailable''),
      outputWrite = (\<lambda>b. None)\<rparr> world0
   = (Inl (Error ''entropy source unavailable''),
      world0\<lparr>passwordReads := 1, randReads := 1,
             passphrase := Some (''hunter2'' @ replicate 25 (CHR 0x00))\<rparr>) \<and>
   setupCryptoStream
     \<lparr>ReadPassword = Inr ''hunter2'', randRead = Inr ''0123456789abcdef'',
      outputWrite = (\<lambda>b. Some (Error ''no space left on device''))\<rparr> world0
   = (Inl (Error ''no space left on device''),
      world0\<lparr>passwordReads := 1, randReads := 1,
             passphrase := Some (''hunter2'' @ replicate 25 (CHR 0x00))\<rparr>) \<and>
   ''hunter2'' @ replicate 25 (CHR 0x00) \<noteq> replicate 32 (CHR 0x00) \<and>
   password (Close \<lparr>key = k, iv = i, password = ''hunter2'' @ replicate 25 (CHR 0x00)\<rparr>)
     = replicate 32 (CHR 0x00)"
proof -
  have "hd (''hunter2'' @ replicate 25 (CHR 0x00)) \<noteq> hd (replicate 32 (CHR 0x00))"
    by simp
  then have "''hunter2'' @ replicate 25 (CHR 0x00) \<noteq> replicate 32 (CHR 0x00)"
    by metis
  moreover have "map (\<lambda>b. CHR 0x00) (''hunter2'' @ replicate 25 (CHR 0x00)) = replicate 32 (CHR 0x00)"
    by code_simp
  ultimately show ?thesis
    by (simp add: setupCryptoStream_def world0_def pad32_def Let_def Close_def)
qed

text \<open>
  Claim C9. A run of \<^verbatim>\<open>runBuild\<close> reads no password, draws no random bytes and keeps no
  passphrase; once the outputs are open and the home directory is entered, the sink
  receives the gzip compression of the tar stream and nothing else, and it receives
  nothing before that. The run does not depend on the terminal or on the random source.
  By contrast, every call of \<^verbatim>\<open>setupCryptoStream\<close> reads a password, and a successful one
  writes the IV to the sink.
\<close>

theorem no_encryption:
  "(runBuild env listPaths outPaths w = Inr (r, w') \<longrightarrow>
      passwordReads w' = passwordReads w \<and> randReads w' = randReads w \<and>
      passphrase w' = passphrase w \<and>
      (if openOutputs env outPaths = None \<and> goHome env = None
       then sink w' = sink w @ gzip env (tarStream w')
       else sink w' = sink w)) \<and>
   runBuild (env\<lparr>crypto := c\<rparr>) listPaths outPaths w = runBuild env listPaths outPaths w \<and>
   passwordReads (snd (setupCryptoStream c w)) = passwordReads w + 1 \<and>
   (setupCryptoStream c w = (Inr mw, w') \<longrightarrow> sink w' = sink w @ iv mw)"
proof -
  have a: "passwordReads w' = passwordReads w \<and> randReads w' = randReads w \<and>
      passphrase w' = passphrase w \<and>
      (if openOutputs env outPaths = None \<and> goHome env = None
       then sink w' = sink w @ gzip env (tarStream w')
       else sink w' = sink w)"
    if run: "runBuild env listPaths outPaths w = Inr (r, w')"
  proof -
    obtain stages w1 where ll: "loadLists env listPaths [] w = (stages, w1)"
      by (cases "loadLists env listPaths [] w")
    note k1 = loadLists_keeps[OF ll]
    show ?thesis
    proof (cases "openOutputs env outPaths = None \<and> goHome env = None")
      case False
      then have "w' = w1" using run ll
        by (auto simp: runBuild_def split: option.splits)
      then show ?thesis by (subst if_not_P[OF False]) (simp add: k1)
    next
      case True
      then obtain fileList where c: "compileStages (home env) stages = Inr fileList"
        using run ll by (cases "compileStages (home env) stages") (auto simp: runBuild_def)
      obtain e2 w2 where al: "archiveLoop (emit env) fileList (w1\<lparr>tarStream := []\<rparr>) = (e2, w2)"
        by (cases "archiveLoop (emit env) fileList (w1\<lparr>tarStream := []\<rparr>)")
      note k2 = archiveLoop_keeps[OF al]
      have "w' = w2\<lparr>tarStream := tarStream w2 @ tarClose env (tarStream w2),
                    sink := sink w2 @ gzip env (tarStream w2 @ tarClose env (tarStream w2))\<rparr>"
        using run ll True c al by (simp add: runBuild_def Let_def)
      then show ?thesis using k1 k2 True by simp
    qed
  qed
  have b: "runBuild (env\<lparr>crypto := c\<rparr>) listPaths outPaths w = runBuild env listPaths outPaths w"
  proof -
    have "loadLists (env\<lparr>crypto := c\<rparr>) ps st v = loadLists env ps st v" for ps st v
      by (induction ps arbitrary: st v) (auto split: sum.splits)
    moreover have "openOutputs (env\<lparr>crypto := c\<rparr>) ps = openOutputs env ps" for ps
      by (induction ps) (auto split: option.splits)
    ultimately show ?thesis
      by (simp add: runBuild_def Let_def split: prod.splits option.splits sum.splits)
  qed
  have d: "setupCryptoStream c w = (Inr mw, w') \<longrightarrow> sink w' = sink w @ iv mw"
    by (auto simp: setupCryptoStream_def Let_def split: sum.splits option.splits)
  show ?thesis using a b d setup_counts[of c w] by blast
qed

theorem no_encryption_witness:
  "runBuild orderBuild [''backup.list''] [] world0 =
     Inr (Some (Error (''Error archiving '' @ [CHR 0x27] @ ''secret.txt'' @ [CHR 0x27] @ '': input/output error'')),
          world0\<lparr>tarStream := ''H:a.txt;abcH:secret.txt;abEOF'',
                  sink := ''gz(H:a.txt;abcH:secret.txt;abEOF)''\<rparr>) \<and>
   passwordReads (world0\<lparr>tarStream := ''H:a.txt;abcH:secret.txt;abEOF'',
                  sink := ''gz(H:a.txt;abcH:secret.txt;abEOF)''\<rparr>) = 0 \<and>
   setupCryptoStream
     \<lparr>ReadPassword = Inr ''hunter2'', randRead = Inr ''0123456789abcdef'',
      outputWrite = (\<lambda>b. None)\<rparr> world0
   = (Inr \<lparr>key = ''hunter2'' @ replicate 25 (CHR 0x00), iv = ''0123456789abcdef'',
           password = ''hunter2'' @ replicate 25 (CHR 0x00)\<rparr>,
      world0\<lparr>passwordReads := 1, randReads := 1,
             passphrase := Some (''hunter2'' @ replicate 25 (CHR 0x00)),
             sink := ''0123456789abcdef''\<rparr>)"
proof -
  let ?w = "world0\<lparr>tarStream := ''H:a.txt;abcH:secret.txt;abEOF'',
                  sink := ''gz(H:a.txt;abcH:secret.txt;abEOF)''\<rparr>"
  let ?c = "\<lparr>ReadPassword = Inr ''hunter2'', randRead = Inr ''0123456789abcdef'',
      outputWrite = (\<lambda>b. None)\<rparr>"
  have s: "setupCryptoStream ?c world0
   = (Inr \<lparr>key = ''hunter2'' @ replicate 25 (CHR 0x00), iv = ''0123456789abcdef'',
           password = ''hunter2'' @ replicate 25 (CHR 0x00)\<rparr>,
      world0\<lparr>passwordReads := 1, randReads := 1,
             passphrase := Some (''hunter2'' @ replicate 25 (CHR 0x00)),
             sink := ''0123456789abcdef''\<rparr>)"
    by (simp add: setupCryptoStream_def world0_def pad32_def Let_def)
  note t = no_encryption[where env = orderBuild and listPaths = "[''backup.list'']"
      and outPaths = "[]" and w = world0 and w' = ?w, THEN conjunct1, rule_format, OF orderBuild_run]
  from t have "passwordReads ?w = passwordReads world0" by blast
  then have "passwordReads ?w = 0" by (simp add: world0_def)
  then show ?thesis using orderBuild_run s by simp
qed

end
